theory Spec2Isabelle
  imports Complex_Main
begin

section \<open>JavaScript values used by createGltf.js\<close>

text \<open>
  A JavaScript number is a double: a finite value, one of the two infinities, or NaN.
  \<open>Math.min\<close> and \<open>Math.max\<close> only compare and select, so a finite double is
  modelled by the real number it denotes (the sign of zero is not modelled).
\<close>

datatype jsnum = NaN | NegInf | Fin real | PosInf

text \<open>\<open>Math.min(a, b)\<close>: NaN if either argument is NaN, otherwise the smaller one.\<close>

fun Math_min :: "jsnum \<Rightarrow> jsnum \<Rightarrow> jsnum" where
  "Math_min NaN b = NaN"
| "Math_min a NaN = NaN"
| "Math_min NegInf b = NegInf"
| "Math_min a NegInf = NegInf"
| "Math_min PosInf b = b"
| "Math_min a PosInf = a"
| "Math_min (Fin x) (Fin y) = Fin (min x y)"

text \<open>\<open>Math.max(a, b)\<close>: NaN if either argument is NaN, otherwise the larger one.\<close>

fun Math_max :: "jsnum \<Rightarrow> jsnum \<Rightarrow> jsnum" where
  "Math_max NaN b = NaN"
| "Math_max a NaN = NaN"
| "Math_max PosInf b = PosInf"
| "Math_max a PosInf = PosInf"
| "Math_max NegInf b = b"
| "Math_max a NegInf = a"
| "Math_max (Fin x) (Fin y) = Fin (max x y)"

text \<open>
  \<open>array[index]\<close>: the element, or \<open>undefined\<close> (here \<open>None\<close>) when the index is
  not below the array's length.
\<close>

definition array_get :: "'a list \<Rightarrow> nat \<Rightarrow> 'a option" where
  "array_get array index = (if index < length array then Some (array ! index) else None)"

text \<open>The conversion \<open>Math.min\<close> and \<open>Math.max\<close> apply to an argument: \<open>undefined\<close> becomes NaN.\<close>

definition ToNumber :: "jsnum option \<Rightarrow> jsnum" where
  "ToNumber v = (case v of None \<Rightarrow> NaN | Some x \<Rightarrow> x)"

text \<open>Cesium's \<open>defaultValue(a, b)\<close>: \<open>a\<close> unless it is undefined, then \<open>b\<close>.\<close>

definition defaultValue :: "'a option \<Rightarrow> 'a \<Rightarrow> 'a" where
  "defaultValue a b = (case a of None \<Rightarrow> b | Some v \<Rightarrow> v)"

text \<open>
  \<open>length / components\<close> on two array sizes: a division of doubles. Dividing by zero gives
  \<open>Infinity\<close>, and \<open>0 / 0\<close> gives NaN. For sizes of arrays the quotient is compared with
  the integer loop counter only, so the exact quotient stands for the rounded one.
\<close>

definition js_divide :: "nat \<Rightarrow> nat \<Rightarrow> jsnum" where
  "js_divide a b =
     (if b = 0 then (if a = 0 then NaN else PosInf) else Fin (real a / real b))"

text \<open>\<open>a < b\<close> on numbers: false when either side is NaN.\<close>

fun js_less :: "jsnum \<Rightarrow> jsnum \<Rightarrow> bool" where
  "js_less NaN b = False"
| "js_less a NaN = False"
| "js_less PosInf b = False"
| "js_less a NegInf = False"
| "js_less NegInf b = True"
| "js_less a PosInf = True"
| "js_less (Fin x) (Fin y) = (x < y)"

section \<open>getMinMax\<close>

text \<open>The object \<open>{min : min, max : max}\<close> that \<open>getMinMax\<close> returns.\<close>

record minmax =
  mins :: "jsnum list"
  maxs :: "jsnum list"

text \<open>
  The inner loop, \<open>for (var j = 0; j < components; ++j)\<close>, for one value of \<open>i\<close>: it reads
  \<open>array[start + i * components + j]\<close> and folds it into \<open>min[j]\<close> and \<open>max[j]\<close>.
\<close>

definition getMinMax_step :: "jsnum list \<Rightarrow> nat \<Rightarrow> nat \<Rightarrow> nat \<Rightarrow> nat \<Rightarrow> minmax \<Rightarrow> minmax" where
  "getMinMax_step array components start i j mm =
     (let index = start + i * components + j;
          val = ToNumber (array_get array index)
      in \<lparr>mins = (mins mm)[j := Math_min (mins mm ! j) val],
          maxs = (maxs mm)[j := Math_max (maxs mm ! j) val]\<rparr>)"

definition getMinMax_inner :: "jsnum list \<Rightarrow> nat \<Rightarrow> nat \<Rightarrow> nat \<Rightarrow> minmax \<Rightarrow> minmax" where
  "getMinMax_inner array components start i mm =
     fold (getMinMax_step array components start i) [0..<components] mm"

text \<open>
  The outer loop, \<open>for (var i = 0; i < count; ++i)\<close>. With \<open>components = 0\<close> and a
  non-empty range \<open>count\<close> is \<open>Infinity\<close> and the loop never ends, so the loop is a partial
  function: \<open>None\<close> stands for a run that does not return.
\<close>

partial_function (option) getMinMax_loop ::
  "jsnum list \<Rightarrow> nat \<Rightarrow> nat \<Rightarrow> jsnum \<Rightarrow> nat \<Rightarrow> minmax \<Rightarrow> minmax option" where
  "getMinMax_loop array components start count i mm =
     (if js_less (Fin (real i)) count
      then getMinMax_loop array components start count (i + 1)
             (getMinMax_inner array components start i mm)
      else Some mm)"

declare getMinMax_loop.simps [code]

text \<open>
  \<open>getMinMax(array, components, start, length)\<close>; \<open>start\<close> and \<open>length\<close> are optional
  (\<open>None\<close> when the caller leaves them out).
\<close>

definition getMinMax :: "jsnum list \<Rightarrow> nat \<Rightarrow> nat option \<Rightarrow> nat option \<Rightarrow> minmax option" where
  "getMinMax array components start0 length0 =
     (let start = defaultValue start0 0;
          len = defaultValue length0 (length array);
          mn = replicate components PosInf;
          mx = replicate components NegInf;
          count = js_divide len components
      in getMinMax_loop array components start count 0 \<lparr>mins = mn, maxs = mx\<rparr>)"

section \<open>Runs of createGltf\<close>

text \<open>
  A statement of the source either completes with a value, throws, or (only the loop of
  \<open>getMinMax\<close>) does not return. A run is \<open>None\<close> when it does not return,
  \<open>Some (Inl e)\<close> when it throws \<open>e\<close>, and \<open>Some (Inr v)\<close> when it completes with \<open>v\<close>.
\<close>

datatype error = ReferenceError string | TypeError string | RangeError string

type_synonym 'a run = "(error + 'a) option"

definition returns :: "'a \<Rightarrow> 'a run" where
  "returns v = Some (Inr v)"

definition throws :: "error \<Rightarrow> 'a run" where
  "throws e = Some (Inl e)"

definition bind_run :: "'a run \<Rightarrow> ('a \<Rightarrow> 'b run) \<Rightarrow> 'b run" where
  "bind_run m f = (case m of None \<Rightarrow> None | Some (Inl e) \<Rightarrow> Some (Inl e) | Some (Inr v) \<Rightarrow> f v)"

text \<open>A call of a function that may not return.\<close>

definition call :: "'a option \<Rightarrow> 'a run" where
  "call r = (case r of None \<Rightarrow> None | Some v \<Rightarrow> returns v)"

text \<open>
  Reading an identifier that no \<open>var\<close>, parameter or function declaration of the module
  introduces throws a ReferenceError (the module is in strict mode and sets no globals).
\<close>

definition undeclared :: "string \<Rightarrow> 'a run" where
  "undeclared name = throws (ReferenceError name)"

section \<open>Node buffers\<close>

definition sizeOfUint8 :: nat where "sizeOfUint8 = 1"
definition sizeOfUint16 :: nat where "sizeOfUint16 = 2"
definition sizeOfFloat32 :: nat where "sizeOfFloat32 = 4"

text \<open>
  A buffer is modelled by its length in bytes, fixed by \<open>Buffer.alloc\<close>, and the values
  written into it, in order; the bit pattern of a value is not modelled. Every loop of
  the source writes at the offsets \<open>0, size, 2 * size, ...\<close> in increasing order.
\<close>

datatype element = Float32 jsnum | UInt16 jsnum | UInt8 jsnum

record buffer =
  byteLength :: nat
  written :: "element list"

definition Buffer_alloc :: "nat \<Rightarrow> buffer" where
  "Buffer_alloc n = \<lparr>byteLength = n, written = []\<rparr>"

definition Buffer_concat :: "buffer list \<Rightarrow> buffer" where
  "Buffer_concat bs = \<lparr>byteLength = sum_list (map byteLength bs), written = concat (map written bs)\<rparr>"

text \<open>
  Node's check on an integer write: \<open>value > max || value < min\<close> throws (a RangeError
  in current versions of Node); NaN passes. A float write has no such check.
\<close>

fun out_of_range :: "jsnum \<Rightarrow> real \<Rightarrow> real \<Rightarrow> bool" where
  "out_of_range NaN lo hi = False"
| "out_of_range NegInf lo hi = True"
| "out_of_range PosInf lo hi = True"
| "out_of_range (Fin r) lo hi = (r > hi \<or> r < lo)"

definition writeFloatLE :: "jsnum \<Rightarrow> element run" where
  "writeFloatLE v = returns (Float32 v)"

definition writeUInt8 :: "jsnum \<Rightarrow> element run" where
  "writeUInt8 v = (if out_of_range v 0 255 then throws (RangeError ''value'') else returns (UInt8 v))"

definition writeUInt16LE :: "jsnum \<Rightarrow> element run" where
  "writeUInt16LE v = (if out_of_range v 0 65535 then throws (RangeError ''value'') else returns (UInt16 v))"

text \<open>
  \<open>for (i = 0; i < n; ++i) { buf.write...(<expression in i>, i * size); }\<close>: the
  expression is evaluated and written for each \<open>i\<close> in turn; the first throw ends the loop.
\<close>

fun write_loop :: "(nat \<Rightarrow> element run) \<Rightarrow> nat list \<Rightarrow> buffer \<Rightarrow> buffer run" where
  "write_loop w [] buf = returns buf"
| "write_loop w (i # rest) buf =
     bind_run (w i) (\<lambda>e. write_loop w rest (buf\<lparr>written := written buf @ [e]\<rparr>))"

section \<open>Objects and arrays of the asset description\<close>

text \<open>
  The asset description is built from object and array literals. An object is the list
  of its properties; an array is the list of its elements together with the named
  properties assigned to it (arrays are objects).
\<close>

datatype json =
    JUndefined
  | JBool bool
  | JNum jsnum
  | JStr string
  | JUri buffer
  | JArr "json list" "(string \<times> json) list"
  | JObj "(string \<times> json) list"

definition num :: "nat \<Rightarrow> json" where
  "num n = JNum (Fin (real n))"

definition nums :: "jsnum list \<Rightarrow> json" where
  "nums xs = JArr (map JNum xs) []"

text \<open>
  \<open>target.push(x)\<close>: only an array has \<open>push\<close>. On a plain object the property lookup
  gives \<open>undefined\<close> and the call throws a TypeError.
\<close>

fun push :: "json \<Rightarrow> json \<Rightarrow> json run" where
  "push (JArr xs ps) x = returns (JArr (xs @ [x]) ps)"
| "push target x = throws (TypeError ''push is not a function'')"

text \<open>\<open>target.key = v\<close> on an object or an array.\<close>

definition assign :: "(string \<times> json) list \<Rightarrow> string \<Rightarrow> json \<Rightarrow> (string \<times> json) list" where
  "assign ps key v =
     (if key \<in> set (map fst ps)
      then map (\<lambda>(k, old). if k = key then (k, v) else (k, old)) ps
      else ps @ [(key, v)])"

fun set_property :: "json \<Rightarrow> string \<Rightarrow> json \<Rightarrow> json" where
  "set_property (JObj ps) key v = JObj (assign ps key v)"
| "set_property (JArr xs ps) key v = JArr xs (assign ps key v)"
| "set_property target key v = target"

fun array_length :: "json \<Rightarrow> nat" where
  "array_length (JArr xs ps) = length xs"
| "array_length other = 0"

section \<open>The mesh and the options\<close>

text \<open>
  \<open>material.baseColor\<close> is either an array of numbers or a string (the test
  \<open>typeof baseColor === 'string'\<close> tells them apart).
\<close>

datatype color = Color "jsnum list" | Uri string

record material =
  baseColor :: color

record view =
  material :: material
  indexOffset :: nat
  indexCount :: nat

record mesh =
  positions :: "jsnum list"
  normals :: "jsnum list"
  uvs :: "jsnum list"
  vertexColors :: "jsnum list"
  batchIds :: "jsnum list"
  indices :: "jsnum list"
  views :: "view list"

text \<open>
  The three methods of the mesh that \<open>createGltf\<close> calls. The class \<open>Mesh\<close> is not part
  of this file, so the methods are parameters of the model: \<open>getVertexCount\<close> and
  \<open>getCenter\<close> read the mesh, \<open>setPositionsRelativeToCenter\<close> changes it in place (the
  model returns the mesh after the call).
\<close>

record Mesh_methods =
  getVertexCount :: "mesh \<Rightarrow> nat"
  getCenter :: "mesh \<Rightarrow> jsnum \<times> jsnum \<times> jsnum"
  setPositionsRelativeToCenter :: "mesh \<Rightarrow> mesh"

text \<open>The \<open>options\<close> object; an optional property that is left out is \<open>None\<close>.\<close>

record options =
  mesh :: mesh
  useBatchIds :: "bool option"
  relativeToCenter :: "bool option"
  quantization :: "bool option"
  deprecated :: "bool option"
  textureCompressionOptions :: "(string \<times> string) list list option"
  upAxis :: "string option"

section \<open>createGltf, in the order of the source\<close>

text \<open>Line 54: \<open>!vertexColors.every(function(element) {return element === 0;})\<close>.\<close>

definition hasVertexColors :: "jsnum list \<Rightarrow> bool" where
  "hasVertexColors colors = (\<not> list_all (\<lambda>element. element = Fin 0) colors)"

text \<open>
  Lines 63 to 72: the root matrix is assigned for \<open>'Y'\<close> and for \<open>'Z'\<close>; for any other
  value the variable keeps its initial \<open>undefined\<close>.
\<close>

definition rootMatrix :: "string \<Rightarrow> json" where
  "rootMatrix axis =
     (if axis = ''Y''
      then nums (map Fin [1, 0, 0, 0, 0, 0, -1, 0, 0, 1, 0, 0, 0, 0, 0, 1])
      else if axis = ''Z''
      then nums (map Fin [1, 0, 0, 0, 0, 1, 0, 0, 0, 0, 1, 0, 0, 0, 0, 1])
      else JUndefined)"

text \<open>
  Lines 74 to 123: the extrema and the buffer of each attribute. The loop over the
  positions reads \<open>position[i]\<close>, and no \<open>position\<close> is declared (the array is
  \<open>positions\<close>). Line 101 allocates the colour buffer with \<open>sizeOfUint8\<close> as its fill
  value; the loop then overwrites every byte.
\<close>

record encoded =
  positionMinMax :: minmax
  positionBuffer :: buffer
  normalsMinMax :: minmax
  normalBuffer :: buffer
  uvsMinMax :: minmax
  uvBuffer :: buffer
  vertexColorsMinMax :: "minmax option"
  vertexColorBuffer :: buffer
  batchIdsMinMax :: "minmax option"
  batchIdsLength :: "nat option"
  batchIdBuffer :: buffer
  indexBuffer :: buffer

definition encodePositions :: "jsnum list \<Rightarrow> (minmax \<times> buffer) run" where
  "encodePositions array =
     bind_run (call (getMinMax array 3 None None)) (\<lambda>positionMinMax.
     let positionLength = length array in
     bind_run (write_loop
         (\<lambda>i. bind_run (undeclared ''position'') (\<lambda>position.
                writeFloatLE (ToNumber (array_get position i))))
         [0..<positionLength] (Buffer_alloc (positionLength * sizeOfFloat32))) (\<lambda>positionBuffer.
     returns (positionMinMax, positionBuffer)))"

definition encodeFloats :: "jsnum list \<Rightarrow> nat \<Rightarrow> (minmax \<times> buffer) run" where
  "encodeFloats array components =
     bind_run (call (getMinMax array components None None)) (\<lambda>arrayMinMax.
     let arrayLength = length array in
     bind_run (write_loop (\<lambda>i. writeFloatLE (ToNumber (array_get array i)))
         [0..<arrayLength] (Buffer_alloc (arrayLength * sizeOfFloat32))) (\<lambda>arrayBuffer.
     returns (arrayMinMax, arrayBuffer)))"

definition encodeVertexColors :: "bool \<Rightarrow> jsnum list \<Rightarrow> (minmax option \<times> buffer) run" where
  "encodeVertexColors hasColors array =
     (if hasColors
      then bind_run (call (getMinMax array 4 None None)) (\<lambda>vertexColorsMinMax.
           let vertexColorsLength = length array in
           bind_run (write_loop (\<lambda>i. writeUInt8 (ToNumber (array_get array i)))
               [0..<vertexColorsLength] (Buffer_alloc vertexColorsLength)) (\<lambda>vertexColorBuffer.
           returns (Some vertexColorsMinMax, vertexColorBuffer)))
      else returns (None, Buffer_alloc 0))"

definition encodeBatchIds ::
  "bool \<Rightarrow> jsnum list \<Rightarrow> (minmax option \<times> nat option \<times> buffer) run" where
  "encodeBatchIds useIds array =
     (if useIds
      then bind_run (call (getMinMax array 1 None None)) (\<lambda>batchIdsMinMax.
           let batchIdsLength = length array in
           bind_run (write_loop (\<lambda>i. writeUInt16LE (ToNumber (array_get array i)))
               [0..<batchIdsLength] (Buffer_alloc (batchIdsLength * sizeOfUint16))) (\<lambda>batchIdBuffer.
           returns (Some batchIdsMinMax, Some batchIdsLength, batchIdBuffer)))
      else returns (None, None, Buffer_alloc 0))"

definition encodeIndices :: "jsnum list \<Rightarrow> buffer run" where
  "encodeIndices array =
     (let indicesLength = length array in
      write_loop (\<lambda>i. writeUInt16LE (ToNumber (array_get array i)))
        [0..<indicesLength] (Buffer_alloc (indicesLength * sizeOfUint16)))"

definition encodeAttributes :: "mesh \<Rightarrow> bool \<Rightarrow> bool \<Rightarrow> encoded run" where
  "encodeAttributes m hasColors useIds =
     bind_run (encodePositions (positions m)) (\<lambda>(pMinMax, pBuffer).
     bind_run (encodeFloats (normals m) 3) (\<lambda>(nMinMax, nBuffer).
     bind_run (encodeFloats (uvs m) 2) (\<lambda>(uMinMax, uBuffer).
     bind_run (encodeVertexColors hasColors (vertexColors m)) (\<lambda>(cMinMax, cBuffer).
     bind_run (encodeBatchIds useIds (batchIds m)) (\<lambda>(bMinMax, bLength, bBuffer).
     bind_run (encodeIndices (indices m)) (\<lambda>iBuffer.
     returns \<lparr>positionMinMax = pMinMax, positionBuffer = pBuffer,
              normalsMinMax = nMinMax, normalBuffer = nBuffer,
              uvsMinMax = uMinMax, uvBuffer = uBuffer,
              vertexColorsMinMax = cMinMax, vertexColorBuffer = cBuffer,
              batchIdsMinMax = bMinMax, batchIdsLength = bLength, batchIdBuffer = bBuffer,
              indexBuffer = iBuffer\<rparr>))))))"

text \<open>Lines 139 to 145: the buffer-view indices, counted up over the segments present.\<close>

record bufferViewIndices =
  positionBufferViewIndex :: nat
  normalBufferViewIndex :: nat
  uvBufferViewIndex :: nat
  vertexColorBufferViewIndex :: nat
  batchIdBufferViewIndex :: nat
  indexBufferViewIndex :: nat

definition assignBufferViewIndices :: "bool \<Rightarrow> bool \<Rightarrow> bufferViewIndices" where
  "assignBufferViewIndices hasColors useIds =
     (let bufferViewIndex = 0;
          positionIx = bufferViewIndex; bufferViewIndex = bufferViewIndex + 1;
          normalIx = bufferViewIndex; bufferViewIndex = bufferViewIndex + 1;
          uvIx = bufferViewIndex; bufferViewIndex = bufferViewIndex + 1;
          colorIx = (if hasColors then bufferViewIndex else 0);
          bufferViewIndex = (if hasColors then bufferViewIndex + 1 else bufferViewIndex);
          batchIx = (if useIds then bufferViewIndex else 0);
          bufferViewIndex = (if useIds then bufferViewIndex + 1 else bufferViewIndex);
          indexIx = bufferViewIndex
      in \<lparr>positionBufferViewIndex = positionIx, normalBufferViewIndex = normalIx,
          uvBufferViewIndex = uvIx, vertexColorBufferViewIndex = colorIx,
          batchIdBufferViewIndex = batchIx, indexBufferViewIndex = indexIx\<rparr>)"

text \<open>Lines 147 to 159: the byte offset of each segment, a running total.\<close>

record byteOffsets =
  positionBufferByteOffset :: nat
  normalBufferByteOffset :: nat
  uvBufferByteOffset :: nat
  vertexColorBufferByteOffset :: nat
  batchIdBufferByteOffset :: nat
  indexBufferByteOffset :: nat

definition assignByteOffsets :: "bool \<Rightarrow> bool \<Rightarrow> encoded \<Rightarrow> byteOffsets" where
  "assignByteOffsets hasColors useIds enc =
     (let byteOffset = 0;
          positionOffset = byteOffset;
          byteOffset = byteOffset + byteLength (positionBuffer enc);
          normalOffset = byteOffset;
          byteOffset = byteOffset + byteLength (normalBuffer enc);
          uvOffset = byteOffset;
          byteOffset = byteOffset + byteLength (uvBuffer enc);
          colorOffset = byteOffset;
          byteOffset = byteOffset + (if hasColors then byteLength (vertexColorBuffer enc) else 0);
          batchOffset = byteOffset;
          byteOffset = byteOffset + (if useIds then byteLength (batchIdBuffer enc) else 0);
          indexOffset = byteOffset;
          byteOffset = byteOffset + byteLength (indexBuffer enc)
      in \<lparr>positionBufferByteOffset = positionOffset, normalBufferByteOffset = normalOffset,
          uvBufferByteOffset = uvOffset, vertexColorBufferByteOffset = colorOffset,
          batchIdBufferByteOffset = batchOffset, indexBufferByteOffset = indexOffset\<rparr>)"

text \<open>
  Lines 131 to 137: \<open>indexAccessors\<close> and \<open>materials\<close> start as the object literal
  \<open>{}\<close>, \<open>primitives\<close> as the array literal \<open>[]\<close>; \<open>images\<close>, \<open>samplers\<close> and
  \<open>textures\<close> start undefined. Line 178, \<open>var baseColorTexture;\<close>, has no
  initialiser and the variable belongs to the function, so it starts undefined and keeps
  its value from one iteration of the loop to the next.
\<close>

record loop_vars =
  indexAccessors :: json
  materials :: json
  primitives :: json
  images :: json
  samplers :: json
  textures :: json
  baseColorTexture :: json

definition initial_loop_vars :: loop_vars where
  "initial_loop_vars =
     \<lparr>indexAccessors = JObj [], materials = JObj [], primitives = JArr [] [],
      images = JUndefined, samplers = JUndefined, textures = JUndefined,
      baseColorTexture = JUndefined\<rparr>"

text \<open>Lines 166 to 174: the object literal passed to \<open>indexAccessors.push\<close>.\<close>

definition indexAccessor :: "bufferViewIndices \<Rightarrow> view \<Rightarrow> minmax \<Rightarrow> json" where
  "indexAccessor ix v indicesMinMax =
     JObj [(''bufferView'', num (indexBufferViewIndex ix)),
           (''byteOffset'', num (sizeOfUint16 * indexOffset v)),
           (''componentType'', num 5123),
           (''count'', num (indexCount v)),
           (''type'', JStr ''SCALAR''),
           (''min'', nums (mins indicesMinMax)),
           (''max'', nums (maxs indicesMinMax))]"

text \<open>
  Lines 176 to 203: base colour factor, transparency, the texture arrays and
  \<open>baseColorTexture\<close>, which only a textured view assigns.
\<close>

definition sampler :: json where
  "sampler = JObj [(''magFilter'', num 9729), (''minFilter'', num 9729),
                   (''wrapS'', num 10497), (''wrapT'', num 10497)]"

definition viewMaterial :: "view \<Rightarrow> loop_vars \<Rightarrow> (json \<times> bool \<times> loop_vars) run" where
  "viewMaterial v vars =
     (case baseColor (material v) of
        Uri uri \<Rightarrow>
          (let vars = (if images vars = JUndefined
                       then vars\<lparr>images := JArr [] [], textures := JArr [] [],
                                 samplers := JArr [sampler] []\<rparr>
                       else vars)
           in bind_run (push (images vars) (JObj [(''uri'', JStr uri)])) (\<lambda>images1.
              bind_run (push (textures vars)
                          (JObj [(''sampler'', num 0),
                                 (''source'', num (array_length images1 - 1))])) (\<lambda>textures1.
              returns (nums (map Fin [1, 1, 1, 1]), False,
                       vars\<lparr>images := images1, textures := textures1,
                            baseColorTexture := JStr uri\<rparr>))))
      | Color rgba \<Rightarrow>
          returns (nums rgba, js_less (ToNumber (array_get rgba 3)) (Fin 1), vars))"

text \<open>Lines 217 to 229: the attribute map of the primitive.\<close>

definition viewAttributes :: "bufferViewIndices \<Rightarrow> bool \<Rightarrow> bool \<Rightarrow> string \<Rightarrow> json" where
  "viewAttributes ix hasColors useIds batchIdSemantic =
     (let attributes = JObj [(''POSITION'', num (positionBufferViewIndex ix)),
                             (''NORMAL'', num (normalBufferViewIndex ix)),
                             (''TEXCOORD_0'', num (uvBufferViewIndex ix))];
          attributes = (if hasColors
                        then set_property attributes ''COLOR_0'' (num (vertexColorBufferViewIndex ix))
                        else attributes);
          attributes = (if useIds
                        then set_property attributes batchIdSemantic (num (batchIdBufferViewIndex ix))
                        else attributes)
      in attributes)"

text \<open>Lines 163 to 236: the body of the loop over the views, for the view at index \<open>i\<close>.\<close>

definition viewBody ::
  "jsnum list \<Rightarrow> bufferViewIndices \<Rightarrow> bool \<Rightarrow> bool \<Rightarrow> string \<Rightarrow> nat \<Rightarrow> view \<Rightarrow> loop_vars
     \<Rightarrow> loop_vars run" where
  "viewBody indexArray ix hasColors useIds batchIdSemantic i v vars =
     bind_run (call (getMinMax indexArray 1 (Some (indexOffset v)) (Some (indexCount v))))
       (\<lambda>indicesMinMax.
     bind_run (push (indexAccessors vars) (indexAccessor ix v indicesMinMax)) (\<lambda>indexAccessors1.
     bind_run (viewMaterial v (vars\<lparr>indexAccessors := indexAccessors1\<rparr>))
       (\<lambda>(baseColorFactor, transparent, vars).
     let doubleSided = transparent;
         alphaMode = (if transparent then ''BLEND'' else ''OPAQUE'')
     in
     bind_run (push (materials vars)
                 (JObj [(''pbrMetallicRoughness'',
                           JObj [(''baseColorFactor'', baseColorFactor),
                                 (''baseColorTexture'', baseColorTexture vars)]),
                        (''alphaMode'', JStr alphaMode),
                        (''doubleSided'', JBool doubleSided)])) (\<lambda>materials1.
     bind_run (push (primitives vars)
                 (JObj [(''attributes'', viewAttributes ix hasColors useIds batchIdSemantic),
                        (''indices'', num i),
                        (''material'', num i),
                        (''mode'', num 4)])) (\<lambda>primitives1.
     returns (vars\<lparr>materials := materials1, primitives := primitives1\<rparr>))))))"

text \<open>Lines 161 to 237: \<open>for (i = 0; i < viewsLength; ++i)\<close>.\<close>

fun viewLoop ::
  "(nat \<Rightarrow> view \<Rightarrow> loop_vars \<Rightarrow> loop_vars run) \<Rightarrow> nat \<Rightarrow> view list \<Rightarrow> loop_vars \<Rightarrow> loop_vars run" where
  "viewLoop body i [] vars = returns vars"
| "viewLoop body i (v # rest) vars = bind_run (body i v vars) (viewLoop body (i + 1) rest)"

text \<open>
  Lines 239 to 300: the vertex accessors. The first object literal reads
  \<open>positionsMinMax.min\<close>, and no \<open>positionsMinMax\<close> is declared (line 75 declares
  \<open>positionMinMax\<close>). The vertex-colour accessor is assigned to the array as the named
  property \<open>accessor_vertexColor\<close>; the batch-id accessor is pushed.
\<close>

definition member_of :: "'a option \<Rightarrow> 'a run" where
  "member_of v = (case v of None \<Rightarrow> throws (TypeError ''Cannot read property of undefined'')
                          | Some x \<Rightarrow> returns x)"

definition vertexAccessor ::
  "nat \<Rightarrow> nat \<Rightarrow> nat \<Rightarrow> string \<Rightarrow> minmax \<Rightarrow> (string \<times> json) list \<Rightarrow> json" where
  "vertexAccessor bufferViewIx componentType vertexCount elementType mm extra =
     JObj ([(''bufferView'', num bufferViewIx),
            (''byteOffset'', num 0),
            (''byteStride'', num 0),
            (''componentType'', num componentType),
            (''count'', num vertexCount),
            (''type'', JStr elementType),
            (''min'', nums (mins mm)),
            (''max'', nums (maxs mm))] @ extra)"

definition buildVertexAccessors ::
  "bufferViewIndices \<Rightarrow> bool \<Rightarrow> bool \<Rightarrow> nat \<Rightarrow> encoded \<Rightarrow> json run" where
  "buildVertexAccessors ix hasColors useIds vertexCount enc =
     bind_run (undeclared ''positionsMinMax'') (\<lambda>positionsMinMax.
     let vertexAccessors =
           JArr [vertexAccessor (positionBufferViewIndex ix) 5126 vertexCount ''VEC3''
                   positionsMinMax [(''name'', JStr ''positions'')],
                 vertexAccessor (normalBufferViewIndex ix) 5126 vertexCount ''VEC3''
                   (normalsMinMax enc) [(''name'', JStr ''normals'')],
                 vertexAccessor (uvBufferViewIndex ix) 5126 vertexCount ''VEC2''
                   (uvsMinMax enc) [(''name'', JStr ''uvs'')]] []
     in
     bind_run (if hasColors
               then bind_run (member_of (vertexColorsMinMax enc)) (\<lambda>colorsMinMax.
                    returns (set_property vertexAccessors ''accessor_vertexColor''
                      (vertexAccessor (vertexColorBufferViewIndex ix) 5121 vertexCount ''VEC4''
                         colorsMinMax [(''normalized'', JBool True)])))
               else returns vertexAccessors) (\<lambda>vertexAccessors.
     if useIds
     then bind_run (member_of (batchIdsMinMax enc)) (\<lambda>idsMinMax.
          push vertexAccessors
            (JObj [(''bufferView'', num (batchIdBufferViewIndex ix)),
                   (''byteOffset'', num 0),
                   (''byteStride'', num 0),
                   (''componentType'', num 5123),
                   (''count'', (case batchIdsLength enc of None \<Rightarrow> JUndefined | Some n \<Rightarrow> num n)),
                   (''type'', JStr ''SCALAR''),
                   (''min'', nums (mins idsMinMax)),
                   (''max'', nums (maxs idsMinMax))]))
     else returns vertexAccessors))"

text \<open>
  Line 302: Cesium's \<open>combine(object1, object2)\<close> copies the own properties of the first
  object and then those of the second that the first does not have, onto a new object.
  The properties of an array are its indices, then its named properties.
\<close>

definition digit :: "nat \<Rightarrow> char" where
  "digit d = ''0123456789'' ! d"

fun string_of_nat :: "nat \<Rightarrow> string" where
  "string_of_nat n =
     (if n < 10 then [digit n] else string_of_nat (n div 10) @ [digit (n mod 10)])"

fun own_properties :: "json \<Rightarrow> (string \<times> json) list" where
  "own_properties (JObj ps) = ps"
| "own_properties (JArr xs ps) = zip (map string_of_nat [0..<length xs]) xs @ ps"
| "own_properties other = []"

definition combine :: "json \<Rightarrow> json \<Rightarrow> json" where
  "combine object1 object2 =
     JObj (own_properties object1 @
           filter (\<lambda>(k, v). k \<notin> set (map fst (own_properties object1))) (own_properties object2))"

text \<open>Lines 304 to 348: the buffer views, one per segment present.\<close>

definition bufferViewEntry :: "nat \<Rightarrow> nat \<Rightarrow> nat \<Rightarrow> json" where
  "bufferViewEntry len offset target =
     JObj [(''buffer'', num 0), (''byteLength'', num len), (''byteOffset'', num offset),
           (''target'', num target)]"

definition buildBufferViews :: "bool \<Rightarrow> bool \<Rightarrow> encoded \<Rightarrow> byteOffsets \<Rightarrow> json run" where
  "buildBufferViews hasColors useIds enc off =
     (let bufferViews =
            JArr [bufferViewEntry (byteLength (positionBuffer enc)) (positionBufferByteOffset off) 34962,
                  bufferViewEntry (byteLength (normalBuffer enc)) (normalBufferByteOffset off) 34962,
                  bufferViewEntry (byteLength (uvBuffer enc)) (uvBufferByteOffset off) 34962] []
      in
      bind_run (if hasColors
                then push bufferViews
                       (bufferViewEntry (byteLength (vertexColorBuffer enc))
                          (vertexColorBufferByteOffset off) 34962)
                else returns bufferViews) (\<lambda>bufferViews.
      bind_run (if useIds
                then push bufferViews
                       (bufferViewEntry (byteLength (batchIdBuffer enc))
                          (batchIdBufferByteOffset off) 34962)
                else returns bufferViews) (\<lambda>bufferViews.
      push bufferViews
        (bufferViewEntry (byteLength (indexBuffer enc)) (indexBufferByteOffset off) 34963))))"

text \<open>
  Lines 350 to 390: the asset description, with the \<open>CESIUM_RTC\<close> extension when
  \<open>relativeToCenter\<close> is set (\<open>Cartesian3.pack\<close> lists the three coordinates).
\<close>

definition assembleGltf ::
  "json \<Rightarrow> buffer \<Rightarrow> json \<Rightarrow> loop_vars \<Rightarrow> json \<Rightarrow> (jsnum \<times> jsnum \<times> jsnum) option \<Rightarrow> json" where
  "assembleGltf accessors buf bufferViews vars matrix center =
     (let gltf =
            JObj [(''accessors'', accessors),
                  (''asset'', JObj [(''generator'', JStr ''3d-tiles-samples-generator''),
                                    (''version'', JStr ''2.0'')]),
                  (''buffers'', JArr [JObj [(''byteLength'', num (byteLength buf)),
                                            (''uri'', JUri buf)]] []),
                  (''bufferViews'', bufferViews),
                  (''images'', images vars),
                  (''materials'', materials vars),
                  (''meshes'', JArr [JObj [(''primitives'', primitives vars)]] []),
                  (''nodes'', JArr [JObj [(''matrix'', matrix), (''mesh'', num 0),
                                          (''name'', JStr ''rootNode'')]] []),
                  (''samplers'', samplers vars),
                  (''scene'', num 0),
                  (''scenes'', JArr [JObj [(''nodes'', JArr [num 0] [])]] []),
                  (''textures'', textures vars)]
      in case center of
           None \<Rightarrow> gltf
         | Some (x, y, z) \<Rightarrow>
             set_property
               (set_property gltf ''extensionsUsed'' (JArr [JStr ''CESIUM_RTC''] []))
               ''extensions''
               (JObj [(''CESIUM_RTC'', JObj [(''center'', nums [x, y, z])])]))"

text \<open>
  The statements after the recentring, lines 74 to 394. The value returned is the
  asset description handed to \<open>gltfToGlb\<close>; the packer itself is not part of this file.
\<close>

definition buildGltf ::
  "Mesh_methods \<Rightarrow> mesh \<Rightarrow> bool \<Rightarrow> bool \<Rightarrow> bool \<Rightarrow> json
     \<Rightarrow> (jsnum \<times> jsnum \<times> jsnum) option \<Rightarrow> json run" where
  "buildGltf M m hasColors useIds isDeprecated matrix center =
     bind_run (encodeAttributes m hasColors useIds) (\<lambda>enc.
     let batchIdSemantic = (if isDeprecated then ''BATCHID'' else ''_BATCHID'');
         vertexCount = getVertexCount M m;
         buf = Buffer_concat [positionBuffer enc, normalBuffer enc, uvBuffer enc,
                              vertexColorBuffer enc, batchIdBuffer enc, indexBuffer enc];
         ix = assignBufferViewIndices hasColors useIds;
         off = assignByteOffsets hasColors useIds enc
     in
     bind_run (viewLoop (viewBody (indices m) ix hasColors useIds batchIdSemantic) 0 (views m)
                 initial_loop_vars) (\<lambda>vars.
     bind_run (buildVertexAccessors ix hasColors useIds vertexCount enc) (\<lambda>vertexAccessors.
     let accessors = combine vertexAccessors (indexAccessors vars) in
     bind_run (buildBufferViews hasColors useIds enc off) (\<lambda>bufferViews.
     returns (assembleGltf accessors buf bufferViews vars matrix center)))))"

text \<open>
  \<open>createGltf(options)\<close>. The result is the mesh as the call leaves it, and the run.
  The arrays of the mesh are read through the variables bound in lines 45 to 51, which
  alias the arrays that \<open>setPositionsRelativeToCenter\<close> changes in place; only
  \<open>hasVertexColors\<close> and the center are computed before that call.
\<close>

definition createGltf :: "Mesh_methods \<Rightarrow> options \<Rightarrow> mesh \<times> json run" where
  "createGltf M opts =
     (let useIds = defaultValue (useBatchIds opts) True;
          isRelativeToCenter = defaultValue (relativeToCenter opts) False;
          isQuantized = defaultValue (quantization opts) False;
          isDeprecated = defaultValue (deprecated opts) False;
          compression = textureCompressionOptions opts;
          axis = defaultValue (upAxis opts) ''Y'';
          m = mesh opts;
          hasColors = hasVertexColors (vertexColors m);
          center = (if isRelativeToCenter then Some (getCenter M m) else None);
          m = (if isRelativeToCenter then setPositionsRelativeToCenter M m else m);
          matrix = rootMatrix axis
      in (m, buildGltf M m hasColors useIds isDeprecated matrix center))"

section \<open>The mesh collaborator and sample inputs\<close>

text \<open>\<open>a - b\<close> on numbers; exact on finite values (rounding is not modelled).\<close>

fun js_minus :: "jsnum \<Rightarrow> jsnum \<Rightarrow> jsnum" where
  "js_minus NaN b = NaN"
| "js_minus a NaN = NaN"
| "js_minus (Fin x) (Fin y) = Fin (x - y)"
| "js_minus (Fin x) PosInf = NegInf"
| "js_minus (Fin x) NegInf = PosInf"
| "js_minus PosInf PosInf = NaN"
| "js_minus PosInf b = PosInf"
| "js_minus NegInf NegInf = NaN"
| "js_minus NegInf b = NegInf"

text \<open>
  Modelled from the spec: the recentring of the positions, which the class \<open>Mesh\<close> (not
  in this file) performs. The spec gives the mesh three position components per vertex and
  has the center "subtracted from all positions".
\<close>

definition recenter :: "jsnum \<times> jsnum \<times> jsnum \<Rightarrow> jsnum list \<Rightarrow> jsnum list" where
  "recenter c ps =
     map (\<lambda>(i, p). js_minus p (case c of (x, y, z) \<Rightarrow>
            if i mod 3 = 0 then x else if i mod 3 = 1 then y else z))
       (enumerate 0 ps)"

text \<open>
  Modelled from the spec: the methods of the class \<open>Mesh\<close>, which is not in this file. The
  spec names "a vertex-count accessor", "a center-computation" and a "recenter in place"
  mutation. How the center is computed is not said, so the center is a parameter.
\<close>

definition Mesh_model :: "jsnum \<times> jsnum \<times> jsnum \<Rightarrow> Mesh_methods" where
  "Mesh_model c =
     \<lparr>getVertexCount = (\<lambda>m. length (positions m) div 3),
      getCenter = (\<lambda>m. c),
      setPositionsRelativeToCenter = (\<lambda>m. m\<lparr>positions := recenter c (positions m)\<rparr>)\<rparr>"

text \<open>
  A quad of four vertices and two triangles with one flat, opaque red view, as in the
  spec's scenario; all-zero vertex colours.
\<close>

definition quad :: mesh where
  "quad =
     \<lparr>positions = map Fin [0, 0, 0, 1, 0, 0, 1, 1, 0, 0, 1, 0],
      normals = map Fin [0, 0, 1, 0, 0, 1, 0, 0, 1, 0, 0, 1],
      uvs = map Fin [0, 0, 1, 0, 1, 1, 0, 1],
      vertexColors = replicate 16 (Fin 0),
      batchIds = map Fin [0, 0, 0, 0],
      indices = map Fin [0, 1, 2, 0, 2, 3],
      views = [\<lparr>material = \<lparr>baseColor = Color (map Fin [1, 0, 0, 1])\<rparr>,
                indexOffset = 0, indexCount = 6\<rparr>]\<rparr>"

definition default_options :: "mesh \<Rightarrow> options" where
  "default_options m =
     \<lparr>mesh = m, useBatchIds = None, relativeToCenter = None, quantization = None,
      deprecated = None, textureCompressionOptions = None, upAxis = None\<rparr>"

text \<open>The value \<open>array[start + i * components + j]\<close> as \<open>Math.min\<close> sees it.\<close>

definition cell :: "jsnum list \<Rightarrow> nat \<Rightarrow> nat \<Rightarrow> nat \<Rightarrow> nat \<Rightarrow> jsnum" where
  "cell array components start i j = ToNumber (array_get array (start + i * components + j))"

text \<open>\<open>object.key\<close>: the value of the property, or \<open>undefined\<close>.\<close>

fun property :: "json \<Rightarrow> string \<Rightarrow> json" where
  "property (JObj ps) key = (case map_of ps key of None \<Rightarrow> JUndefined | Some v \<Rightarrow> v)"
| "property (JArr xs ps) key = (case map_of ps key of None \<Rightarrow> JUndefined | Some v \<Rightarrow> v)"
| "property other key = JUndefined"

text \<open>Views used as sample inputs: two flat colours, two textures, and an empty range.\<close>

definition two_views :: "view list" where
  "two_views =
     [\<lparr>material = \<lparr>baseColor = Color (map Fin [1, 0, 0, 1])\<rparr>, indexOffset = 0, indexCount = 3\<rparr>,
      \<lparr>material = \<lparr>baseColor = Color (map Fin [0, 0, 1, 1/2])\<rparr>, indexOffset = 3, indexCount = 3\<rparr>]"

definition textured_views :: "view list" where
  "textured_views =
     [\<lparr>material = \<lparr>baseColor = Uri ''wood.png''\<rparr>, indexOffset = 0, indexCount = 3\<rparr>,
      \<lparr>material = \<lparr>baseColor = Uri ''brick.png''\<rparr>, indexOffset = 3, indexCount = 3\<rparr>]"

definition empty_view :: "view list" where
  "empty_view =
     [\<lparr>material = \<lparr>baseColor = Color (map Fin [1, 0, 0, 1])\<rparr>, indexOffset = 0, indexCount = 0\<rparr>]"

section \<open>Minimum and maximum of a list of numbers\<close>

text \<open>
  The numbers other than NaN, in their order: the reals between the two infinities.
\<close>

datatype number = MinusInfinity | Finite real | PlusInfinity



instantiation number :: linorder
begin

fun less_eq_number :: "number \<Rightarrow> number \<Rightarrow> bool" where
  "less_eq_number MinusInfinity b = True"
| "less_eq_number a PlusInfinity = True"
| "less_eq_number (Finite x) (Finite y) = (x \<le> y)"
| "less_eq_number a b = False"

definition less_number :: "number \<Rightarrow> number \<Rightarrow> bool" where
  "less_number a b = (a \<le> b \<and> \<not> b \<le> a)"

instance
proof
  fix x y z :: number
  show "(x < y) = (x \<le> y \<and> \<not> y \<le> x)" by (simp add: less_number_def)
  show "x \<le> x" by (cases x) simp_all
  show "x \<le> y \<Longrightarrow> y \<le> z \<Longrightarrow> x \<le> z" by (cases x; cases y; cases z) simp_all
  show "x \<le> y \<Longrightarrow> y \<le> x \<Longrightarrow> x = y" by (cases x; cases y) simp_all
  show "x \<le> y \<or> y \<le> x" by (cases x; cases y) auto
qed

end



section \<open>getMinMax: termination and closed form\<close>

lemma js_less_divide: "js_less (Fin (real i)) (js_divide len c) \<longleftrightarrow> i * c < len"
  by (cases "c = 0") (auto simp: js_divide_def pos_less_divide_eq simp flip: of_nat_mult)

lemma ceil_iff: "0 < c \<Longrightarrow> i < (len + c - 1) div c \<longleftrightarrow> i * c < len" for c :: nat
proof -
  assume c: "0 < c"
  have "i < (len + c - 1) div c \<longleftrightarrow> Suc i \<le> (len + c - 1) div c" by auto
  also have "\<dots> \<longleftrightarrow> Suc i * c \<le> len + c - 1"
    using c by (simp only: less_eq_div_iff_mult_less_eq)
  also have "\<dots> \<longleftrightarrow> i * c < len" using c by auto
  finally show ?thesis .
qed

lemma getMinMax_loop_fold:
  assumes "0 < c"
  shows "getMinMax_loop array c start (js_divide len c) i mm =
         Some (fold (getMinMax_inner array c start) [i..<(len + c - 1) div c] mm)"
proof (induction "len - i * c" arbitrary: i mm rule: less_induct)
  case less
  show ?case
  proof (cases "i * c < len")
    case True
    then have lt: "i < (len + c - 1) div c" using ceil_iff[OF assms, of i len] by blast
    have "len - (i + 1) * c < len - i * c" using True assms by simp
    from less[OF this] True lt show ?thesis
      by (subst getMinMax_loop.simps) (simp add: js_less_divide upt_conv_Cons)
  next
    case False
    then have "\<not> i < (len + c - 1) div c" using ceil_iff[OF assms, of i len] by blast
    with False show ?thesis
      by (subst getMinMax_loop.simps) (simp add: js_less_divide)
  qed
qed

lemma getMinMax_inner_upto:
  assumes "length (mins mm) = c" "length (maxs mm) = c" "k \<le> c"
  shows "fold (getMinMax_step array c start i) [0..<k] mm =
         \<lparr>mins = map (\<lambda>j. if j < k then Math_min (mins mm ! j) (cell array c start i j) else mins mm ! j) [0..<c],
          maxs = map (\<lambda>j. if j < k then Math_max (maxs mm ! j) (cell array c start i j) else maxs mm ! j) [0..<c]\<rparr>"
  using assms(3)
proof (induction k)
  case 0
  show ?case using assms(1,2) by (cases mm) (auto intro!: nth_equalityI)
next
  case (Suc k)
  then have k: "k < c" by simp
  have IH: "fold (getMinMax_step array c start i) [0..<k] mm =
         \<lparr>mins = map (\<lambda>j. if j < k then Math_min (mins mm ! j) (cell array c start i j) else mins mm ! j) [0..<c],
          maxs = map (\<lambda>j. if j < k then Math_max (maxs mm ! j) (cell array c start i j) else maxs mm ! j) [0..<c]\<rparr>"
    using Suc.IH k by simp
  have "fold (getMinMax_step array c start i) [0..<Suc k] mm =
        getMinMax_step array c start i k (fold (getMinMax_step array c start i) [0..<k] mm)"
    by simp
  also have "\<dots> = \<lparr>mins = map (\<lambda>j. if j < Suc k then Math_min (mins mm ! j) (cell array c start i j) else mins mm ! j) [0..<c],
          maxs = map (\<lambda>j. if j < Suc k then Math_max (maxs mm ! j) (cell array c start i j) else maxs mm ! j) [0..<c]\<rparr>"
    unfolding IH using k
    by (auto simp: getMinMax_step_def cell_def Let_def nth_list_update intro!: nth_equalityI)
  finally show ?case .
qed

lemma getMinMax_inner_eq:
  assumes "length (mins mm) = c" "length (maxs mm) = c"
  shows "getMinMax_inner array c start i mm =
         \<lparr>mins = map (\<lambda>j. Math_min (mins mm ! j) (cell array c start i j)) [0..<c],
          maxs = map (\<lambda>j. Math_max (maxs mm ! j) (cell array c start i j)) [0..<c]\<rparr>"
  unfolding getMinMax_inner_def
  by (simp add: getMinMax_inner_upto[OF assms order_refl] cong: map_cong)

lemma getMinMax_fold_eq:
  "fold (getMinMax_inner array c start) [0..<n] \<lparr>mins = replicate c PosInf, maxs = replicate c NegInf\<rparr> =
     \<lparr>mins = map (\<lambda>j. fold (\<lambda>i m. Math_min m (cell array c start i j)) [0..<n] PosInf) [0..<c],
      maxs = map (\<lambda>j. fold (\<lambda>i m. Math_max m (cell array c start i j)) [0..<n] NegInf) [0..<c]\<rparr>"
proof (induction n)
  case 0
  show ?case by (auto intro!: nth_equalityI)
next
  case (Suc n)
  show ?case by (simp add: Suc getMinMax_inner_eq)
qed





lemma Math_min_NaN [simp]: "Math_min a NaN = NaN"
  by (cases a) simp_all

lemma Math_max_NaN [simp]: "Math_max a NaN = NaN"
  by (cases a) simp_all











lemma getMinMax_eq:
  assumes "0 < c"
  shows "getMinMax array c start0 length0 =
     Some \<lparr>mins = map (\<lambda>j. fold (\<lambda>i m. Math_min m (cell array c (defaultValue start0 0) i j))
                    [0..<(defaultValue length0 (length array) + c - 1) div c] PosInf) [0..<c],
           maxs = map (\<lambda>j. fold (\<lambda>i m. Math_max m (cell array c (defaultValue start0 0) i j))
                    [0..<(defaultValue length0 (length array) + c - 1) div c] NegInf) [0..<c]\<rparr>"
  unfolding getMinMax_def Let_def
  by (simp only: getMinMax_loop_fold[OF assms] getMinMax_fold_eq)

lemma getMinMax_returns: "0 < c \<Longrightarrow> \<exists>r. getMinMax array c start0 length0 = Some r"
  by (simp add: getMinMax_eq)




lemma lessThan_2: "{..<2::nat} = {0, 1}"
  by auto


lemma getMinMax_empty_range:
  assumes "defaultValue length0 (length array) = 0"
  shows "getMinMax array c start0 length0 =
           Some \<lparr>mins = replicate c PosInf, maxs = replicate c NegInf\<rparr>"
  unfolding getMinMax_def Let_def assms
  by (subst getMinMax_loop.simps) (simp add: js_divide_def)

text \<open>
  With arity zero and a non-empty sequence \<open>count\<close> is \<open>Infinity\<close>, and the call
  does not return.
\<close>

lemma getMinMax_loop_infinite:
  assumes "getMinMax_loop array components start count i mm = Some r"
  shows "count \<noteq> PosInf"
proof (rule getMinMax_loop.raw_induct
    [where P = "\<lambda>array components start count i mm r. count \<noteq> PosInf", OF _ assms])
  fix loop array components start count i mm r
  assume IH: "\<And>array components start count i mm r.
      loop array components start count i mm = Some r \<Longrightarrow> count \<noteq> PosInf"
    and step: "(if js_less (Fin (real i)) count
      then loop array components start count (i + 1)
             (getMinMax_inner array components start i mm)
      else Some mm) = Some r"
  show "count \<noteq> PosInf"
  proof
    assume inf: "count = PosInf"
    with step have "loop array components start count (i + 1)
        (getMinMax_inner array components start i mm) = Some r" by simp
    from IH[OF this] inf show False by simp
  qed
qed

lemma getMinMax_arity_zero_diverges:
  "array \<noteq> [] \<Longrightarrow> getMinMax array 0 None None = None"
proof (rule ccontr)
  assume ne: "array \<noteq> []" and "getMinMax array 0 None None \<noteq> None"
  then obtain r where "getMinMax array 0 None None = Some r" by auto
  then have "js_divide (length array) 0 \<noteq> PosInf"
    unfolding getMinMax_def Let_def defaultValue_def
    by (auto dest: getMinMax_loop_infinite)
  with ne show False by (simp add: js_divide_def)
qed




section \<open>Every run of createGltf throws\<close>

lemma bind_run_returns [simp]: "bind_run (returns v) f = f v"
  by (simp add: bind_run_def returns_def)

lemma bind_run_throws [simp]: "bind_run (throws e) f = throws e"
  by (simp add: bind_run_def throws_def)

lemma call_Some [simp]: "call (Some v) = returns v"
  by (simp add: call_def)







lemma encodePositions_nonempty:
  assumes "array \<noteq> []"
  shows "encodePositions array = throws (ReferenceError ''position'')"
proof -
  have "[0..<length array] = 0 # [1..<length array]"
    using assms by (simp add: upt_conv_Cons)
  then show ?thesis
    by (simp add: encodePositions_def getMinMax_eq undeclared_def Let_def)
qed

lemma encodePositions_empty:
  "encodePositions [] =
     returns (\<lparr>mins = replicate 3 PosInf, maxs = replicate 3 NegInf\<rparr>, Buffer_alloc 0)"
  by (simp add: encodePositions_def getMinMax_eq undeclared_def Let_def defaultValue_def
      map_replicate_trivial)










lemma encodeAttributes_positions:
  "positions m \<noteq> [] \<Longrightarrow> encodeAttributes m h u = throws (ReferenceError ''position'')"
  by (simp add: encodeAttributes_def encodePositions_nonempty)

lemma viewLoop_throws:
  assumes "vs \<noteq> []"
  shows "viewLoop (viewBody indexArray ix h u sem) i vs initial_loop_vars =
           throws (TypeError ''push is not a function'')"
proof -
  obtain v rest where vs: "vs = v # rest" using assms by (cases vs) auto
  show ?thesis
    by (simp add: vs viewBody_def getMinMax_eq initial_loop_vars_def)
qed

lemma buildVertexAccessors_throws:
  "buildVertexAccessors ix h u n enc = throws (ReferenceError ''positionsMinMax'')"
  by (simp add: buildVertexAccessors_def undeclared_def)

lemma buildGltf_outcome:
  "buildGltf M m h u d matrix center =
     bind_run (encodeAttributes m h u) (\<lambda>enc.
       if views m = [] then throws (ReferenceError ''positionsMinMax'')
       else throws (TypeError ''push is not a function''))"
proof -
  have "(\<lambda>enc. let batchIdSemantic = (if d then ''BATCHID'' else ''_BATCHID'');
         vertexCount = getVertexCount M m;
         buf = Buffer_concat [positionBuffer enc, normalBuffer enc, uvBuffer enc,
                              vertexColorBuffer enc, batchIdBuffer enc, indexBuffer enc];
         ix = assignBufferViewIndices h u;
         off = assignByteOffsets h u enc
     in
     bind_run (viewLoop (viewBody (indices m) ix h u batchIdSemantic) 0 (views m)
                 initial_loop_vars) (\<lambda>vars.
     bind_run (buildVertexAccessors ix h u vertexCount enc) (\<lambda>vertexAccessors.
     let accessors = combine vertexAccessors (indexAccessors vars) in
     bind_run (buildBufferViews h u enc off) (\<lambda>bufferViews.
     returns (assembleGltf accessors buf bufferViews vars matrix center))))) =
     (\<lambda>enc. if views m = [] then throws (ReferenceError ''positionsMinMax'')
       else throws (TypeError ''push is not a function''))"
    by (rule ext) (simp add: Let_def viewLoop_throws buildVertexAccessors_throws)
  then show ?thesis by (simp add: buildGltf_def)
qed



lemma createGltf_positions:
  "positions (fst (createGltf M opts)) \<noteq> [] \<Longrightarrow>
   snd (createGltf M opts) = throws (ReferenceError ''position'')"
  by (simp add: createGltf_def Let_def buildGltf_outcome encodeAttributes_positions)

lemma createGltf_fst:
  "fst (createGltf M opts) =
     (if defaultValue (relativeToCenter opts) False
      then setPositionsRelativeToCenter M (mesh opts) else mesh opts)"
  by (simp add: createGltf_def Let_def)

lemma createGltf_snd:
  "snd (createGltf M opts) =
     bind_run (encodeAttributes (fst (createGltf M opts))
                 (hasVertexColors (vertexColors (mesh opts))) (defaultValue (useBatchIds opts) True))
       (\<lambda>enc. if views (fst (createGltf M opts)) = []
              then throws (ReferenceError ''positionsMinMax'')
              else throws (TypeError ''push is not a function''))"
  by (simp add: createGltf_def Let_def buildGltf_outcome)

lemma createGltf_plain_mesh:
  "fst (createGltf M (default_options m)) = m"
  by (simp add: createGltf_fst default_options_def defaultValue_def)

lemma createGltf_default_positions:
  "positions m \<noteq> [] \<Longrightarrow>
   snd (createGltf M (default_options m)) = throws (ReferenceError ''position'')"
  by (rule createGltf_positions) (simp add: createGltf_plain_mesh)

lemma write_loop_returns:
  assumes "\<And>i. i \<in> set xs \<Longrightarrow> w i = returns (g i)"
  shows "write_loop w xs buf = returns (buf\<lparr>written := written buf @ map g xs\<rparr>)"
  using assms
proof (induction xs arbitrary: buf)
  case Nil
  show ?case by simp
next
  case (Cons i xs)
  then show ?case by simp
qed

lemma map_array_get:
  "map (\<lambda>i. f (ToNumber (array_get array i))) [0..<length array] = map f array"
  by (rule nth_equalityI) (simp_all add: array_get_def ToNumber_def)

lemma write_array_returns:
  assumes "\<And>v. v \<in> set array \<Longrightarrow> w v = returns (g v)"
  shows "write_loop (\<lambda>i. w (ToNumber (array_get array i))) [0..<length array] buf =
           returns (buf\<lparr>written := written buf @ map g array\<rparr>)"
proof -
  have "w (ToNumber (array_get array i)) = returns (g (ToNumber (array_get array i)))"
    if "i \<in> set [0..<length array]" for i
    using that by (intro assms) (simp add: array_get_def ToNumber_def)
  then have "write_loop (\<lambda>i. w (ToNumber (array_get array i))) [0..<length array] buf =
      returns (buf\<lparr>written := written buf @
                 map (\<lambda>i. g (ToNumber (array_get array i))) [0..<length array]\<rparr>)"
    by (rule write_loop_returns)
  then show ?thesis by (simp only: map_array_get)
qed

lemma encodeFloats_returns:
  assumes "0 < c"
  shows "\<exists>mm. encodeFloats array c =
           returns (mm, \<lparr>byteLength = length array * sizeOfFloat32, written = map Float32 array\<rparr>)"
proof -
  have "write_loop (\<lambda>i. writeFloatLE (ToNumber (array_get array i))) [0..<length array]
          (Buffer_alloc (length array * sizeOfFloat32)) =
        returns \<lparr>byteLength = length array * sizeOfFloat32, written = map Float32 array\<rparr>"
    by (subst write_array_returns[where g = Float32])
       (simp_all add: writeFloatLE_def Buffer_alloc_def)
  then show ?thesis
    by (auto simp: encodeFloats_def getMinMax_eq[OF assms] Let_def)
qed

lemma writeUInt8_in_range: "\<not> out_of_range v 0 255 \<Longrightarrow> writeUInt8 v = returns (UInt8 v)"
  by (simp add: writeUInt8_def)

lemma writeUInt16LE_in_range: "\<not> out_of_range v 0 65535 \<Longrightarrow> writeUInt16LE v = returns (UInt16 v)"
  by (simp add: writeUInt16LE_def)

lemma encodeVertexColors_returns:
  assumes "list_all (\<lambda>v. \<not> out_of_range v 0 255) array"
  shows "\<exists>mm. encodeVertexColors h array =
           returns (mm, if h then \<lparr>byteLength = length array, written = map UInt8 array\<rparr>
                        else Buffer_alloc 0)"
proof (cases h)
  case True
  have "write_loop (\<lambda>i. writeUInt8 (ToNumber (array_get array i))) [0..<length array]
          (Buffer_alloc (length array)) =
        returns \<lparr>byteLength = length array, written = map UInt8 array\<rparr>"
    using assms
    by (subst write_array_returns[where g = UInt8])
       (simp_all add: writeUInt8_in_range Buffer_alloc_def list_all_iff)
  with True show ?thesis
    by (auto simp: encodeVertexColors_def getMinMax_eq Let_def)
next
  case False
  then show ?thesis by (auto simp: encodeVertexColors_def)
qed

lemma encodeBatchIds_returns:
  assumes "list_all (\<lambda>v. \<not> out_of_range v 0 65535) array"
  shows "\<exists>mm n. encodeBatchIds u array =
           returns (mm, n, if u then \<lparr>byteLength = length array * sizeOfUint16,
                                       written = map UInt16 array\<rparr>
                           else Buffer_alloc 0)"
proof (cases u)
  case True
  have "write_loop (\<lambda>i. writeUInt16LE (ToNumber (array_get array i))) [0..<length array]
          (Buffer_alloc (length array * sizeOfUint16)) =
        returns \<lparr>byteLength = length array * sizeOfUint16, written = map UInt16 array\<rparr>"
    using assms
    by (subst write_array_returns[where g = UInt16])
       (simp_all add: writeUInt16LE_in_range Buffer_alloc_def list_all_iff)
  with True show ?thesis
    by (auto simp: encodeBatchIds_def getMinMax_eq Let_def)
next
  case False
  then show ?thesis by (auto simp: encodeBatchIds_def)
qed

lemma encodeIndices_returns:
  assumes "list_all (\<lambda>v. \<not> out_of_range v 0 65535) array"
  shows "encodeIndices array =
           returns \<lparr>byteLength = length array * sizeOfUint16, written = map UInt16 array\<rparr>"
  using assms unfolding encodeIndices_def Let_def
  by (subst write_array_returns[where g = UInt16])
     (simp_all add: writeUInt16LE_in_range Buffer_alloc_def list_all_iff)

lemma encodeAttributes_returns:
  assumes "positions m = []"
    and "list_all (\<lambda>v. \<not> out_of_range v 0 255) (vertexColors m)"
    and "list_all (\<lambda>v. \<not> out_of_range v 0 65535) (batchIds m)"
    and "list_all (\<lambda>v. \<not> out_of_range v 0 65535) (indices m)"
  shows "\<exists>enc. encodeAttributes m h u = returns enc \<and>
           positionBuffer enc = Buffer_alloc 0 \<and>
           normalBuffer enc =
             \<lparr>byteLength = length (normals m) * sizeOfFloat32, written = map Float32 (normals m)\<rparr> \<and>
           uvBuffer enc =
             \<lparr>byteLength = length (uvs m) * sizeOfFloat32, written = map Float32 (uvs m)\<rparr> \<and>
           vertexColorBuffer enc =
             (if h then \<lparr>byteLength = length (vertexColors m), written = map UInt8 (vertexColors m)\<rparr>
              else Buffer_alloc 0) \<and>
           batchIdBuffer enc =
             (if u then \<lparr>byteLength = length (batchIds m) * sizeOfUint16,
                          written = map UInt16 (batchIds m)\<rparr>
              else Buffer_alloc 0) \<and>
           indexBuffer enc =
             \<lparr>byteLength = length (indices m) * sizeOfUint16, written = map UInt16 (indices m)\<rparr>"
proof -
  obtain nmm where n: "encodeFloats (normals m) 3 =
      returns (nmm, \<lparr>byteLength = length (normals m) * sizeOfFloat32, written = map Float32 (normals m)\<rparr>)"
    using encodeFloats_returns[of 3 "normals m"] by auto
  obtain umm where uv: "encodeFloats (uvs m) 2 =
      returns (umm, \<lparr>byteLength = length (uvs m) * sizeOfFloat32, written = map Float32 (uvs m)\<rparr>)"
    using encodeFloats_returns[of 2 "uvs m"] by auto
  obtain cmm where c: "encodeVertexColors h (vertexColors m) =
      returns (cmm, if h then \<lparr>byteLength = length (vertexColors m), written = map UInt8 (vertexColors m)\<rparr>
                    else Buffer_alloc 0)"
    using encodeVertexColors_returns[OF assms(2), of h] by auto
  obtain bmm bn where b: "encodeBatchIds u (batchIds m) =
      returns (bmm, bn, if u then \<lparr>byteLength = length (batchIds m) * sizeOfUint16,
                                    written = map UInt16 (batchIds m)\<rparr>
                        else Buffer_alloc 0)"
    using encodeBatchIds_returns[OF assms(3), of u] by auto
  have "encodeAttributes m h u = returns \<lparr>positionMinMax = \<lparr>mins = replicate 3 PosInf, maxs = replicate 3 NegInf\<rparr>,
      positionBuffer = Buffer_alloc 0, normalsMinMax = nmm,
      normalBuffer = \<lparr>byteLength = length (normals m) * sizeOfFloat32, written = map Float32 (normals m)\<rparr>,
      uvsMinMax = umm,
      uvBuffer = \<lparr>byteLength = length (uvs m) * sizeOfFloat32, written = map Float32 (uvs m)\<rparr>,
      vertexColorsMinMax = cmm,
      vertexColorBuffer = (if h then \<lparr>byteLength = length (vertexColors m), written = map UInt8 (vertexColors m)\<rparr>
                    else Buffer_alloc 0),
      batchIdsMinMax = bmm, batchIdsLength = bn,
      batchIdBuffer = (if u then \<lparr>byteLength = length (batchIds m) * sizeOfUint16,
                                    written = map UInt16 (batchIds m)\<rparr>
                        else Buffer_alloc 0),
      indexBuffer = \<lparr>byteLength = length (indices m) * sizeOfUint16, written = map UInt16 (indices m)\<rparr>\<rparr>"
    (is "_ = returns ?enc")
    by (simp add: encodeAttributes_def assms(1) encodePositions_empty n uv c b
          encodeIndices_returns[OF assms(4)])
  then show ?thesis by (intro exI[of _ ?enc]) simp
qed

lemma createGltf_push:
  assumes "positions m = []" "views m \<noteq> []"
    and "list_all (\<lambda>v. \<not> out_of_range v 0 255) (vertexColors m)"
    and "list_all (\<lambda>v. \<not> out_of_range v 0 65535) (batchIds m)"
    and "list_all (\<lambda>v. \<not> out_of_range v 0 65535) (indices m)"
  shows "snd (createGltf M (default_options m)) = throws (TypeError ''push is not a function'')"
proof -
  obtain enc where "encodeAttributes m (hasVertexColors (vertexColors m))
      (defaultValue (useBatchIds (default_options m)) True) = returns enc"
    using encodeAttributes_returns[OF assms(1,3,4,5)] by blast
  then show ?thesis
    using assms(2) by (simp add: createGltf_snd createGltf_plain_mesh) (simp add: default_options_def)
qed

lemma createGltf_no_views:
  assumes "positions m = []" "views m = []"
    and "list_all (\<lambda>v. \<not> out_of_range v 0 255) (vertexColors m)"
    and "list_all (\<lambda>v. \<not> out_of_range v 0 65535) (batchIds m)"
    and "list_all (\<lambda>v. \<not> out_of_range v 0 65535) (indices m)"
  shows "snd (createGltf M (default_options m)) = throws (ReferenceError ''positionsMinMax'')"
proof -
  obtain enc where "encodeAttributes m (hasVertexColors (vertexColors m))
      (defaultValue (useBatchIds (default_options m)) True) = returns enc"
    using encodeAttributes_returns[OF assms(1,3,4,5)] by blast
  then show ?thesis
    using assms(2) by (simp add: createGltf_snd createGltf_plain_mesh) (simp add: default_options_def)
qed

lemma createGltf_upAxis_irrelevant:
  "createGltf M (opts\<lparr>upAxis := a\<rparr>) = createGltf M (opts\<lparr>upAxis := b\<rparr>)"
  by (simp add: createGltf_def Let_def buildGltf_outcome)

section \<open>What the statements behind the throws compute\<close>

text \<open>
  The statements that follow the throwing ones are part of the model. Taken by
  themselves they compute the layout, the accessor fields, the texture arrays, the
  attribute map and the buffer views as written in the source.
\<close>

lemma layout_running_totals:
  assumes "\<not> h \<Longrightarrow> byteLength (vertexColorBuffer enc) = 0"
    and "\<not> u \<Longrightarrow> byteLength (batchIdBuffer enc) = 0"
  shows "positionBufferByteOffset (assignByteOffsets h u enc) = 0"
    and "normalBufferByteOffset (assignByteOffsets h u enc) = byteLength (positionBuffer enc)"
    and "uvBufferByteOffset (assignByteOffsets h u enc) =
           byteLength (positionBuffer enc) + byteLength (normalBuffer enc)"
    and "vertexColorBufferByteOffset (assignByteOffsets h u enc) =
           byteLength (positionBuffer enc) + byteLength (normalBuffer enc) +
           byteLength (uvBuffer enc)"
    and "batchIdBufferByteOffset (assignByteOffsets h u enc) =
           byteLength (positionBuffer enc) + byteLength (normalBuffer enc) +
           byteLength (uvBuffer enc) + byteLength (vertexColorBuffer enc)"
    and "indexBufferByteOffset (assignByteOffsets h u enc) =
           byteLength (positionBuffer enc) + byteLength (normalBuffer enc) +
           byteLength (uvBuffer enc) + byteLength (vertexColorBuffer enc) +
           byteLength (batchIdBuffer enc)"
    and "byteLength (Buffer_concat [positionBuffer enc, normalBuffer enc, uvBuffer enc,
            vertexColorBuffer enc, batchIdBuffer enc, indexBuffer enc]) =
           indexBufferByteOffset (assignByteOffsets h u enc) + byteLength (indexBuffer enc)"
  using assms by (auto simp: assignByteOffsets_def Buffer_concat_def Let_def)

lemma indexAccessor_fields:
  "property (indexAccessor ix v mm) ''count'' = num (indexCount v)"
  "property (indexAccessor ix v mm) ''byteOffset'' = num (sizeOfUint16 * indexOffset v)"
  "property (indexAccessor ix v mm) ''min'' = nums (mins mm)"
  "property (indexAccessor ix v mm) ''max'' = nums (maxs mm)"
  by (simp_all add: indexAccessor_def)

lemma viewMaterial_first_texture:
  assumes "baseColor (material v) = Uri uri" and "images vars = JUndefined"
  shows "viewMaterial v vars =
     returns (nums (map Fin [1, 1, 1, 1]), False,
       vars\<lparr>images := JArr [JObj [(''uri'', JStr uri)]] [],
            textures := JArr [JObj [(''sampler'', num 0), (''source'', num 0)]] [],
            samplers := JArr [sampler] [],
            baseColorTexture := JStr uri\<rparr>)"
  using assms by (cases vars) (simp add: viewMaterial_def Let_def)

lemma viewMaterial_next_texture:
  assumes "baseColor (material v) = Uri uri"
    and "images vars = JArr xs ps" and "textures vars = JArr ts qs"
  shows "viewMaterial v vars =
     returns (nums (map Fin [1, 1, 1, 1]), False,
       vars\<lparr>images := JArr (xs @ [JObj [(''uri'', JStr uri)]]) ps,
            textures := JArr (ts @ [JObj [(''sampler'', num 0), (''source'', num (length xs))]]) qs,
            baseColorTexture := JStr uri\<rparr>)"
  using assms by (simp add: viewMaterial_def Let_def)

text \<open>
  A flat-colour view assigns nothing to \<open>baseColorTexture\<close>: after a textured view the
  variable still holds that view's URI, and line 208 writes it into the material of the
  flat-colour view.
\<close>

lemma viewMaterial_flat_colour:
  assumes "baseColor (material v) = Color rgba"
  shows "viewMaterial v vars =
     returns (nums rgba, js_less (ToNumber (array_get rgba 3)) (Fin 1), vars)"
  using assms by (simp add: viewMaterial_def)

lemma viewAttributes_COLOR_0:
  assumes "sem \<noteq> ''COLOR_0''"
  shows "property (viewAttributes ix h u sem) ''COLOR_0'' =
           (if h then num (vertexColorBufferViewIndex ix) else JUndefined)"
  using assms by (simp add: viewAttributes_def Let_def assign_def)

lemma buildBufferViews_eq:
  "buildBufferViews h u enc off =
     returns (JArr
       ([bufferViewEntry (byteLength (positionBuffer enc)) (positionBufferByteOffset off) 34962,
         bufferViewEntry (byteLength (normalBuffer enc)) (normalBufferByteOffset off) 34962,
         bufferViewEntry (byteLength (uvBuffer enc)) (uvBufferByteOffset off) 34962] @
        (if h then [bufferViewEntry (byteLength (vertexColorBuffer enc))
                      (vertexColorBufferByteOffset off) 34962] else []) @
        (if u then [bufferViewEntry (byteLength (batchIdBuffer enc))
                      (batchIdBufferByteOffset off) 34962] else []) @
        [bufferViewEntry (byteLength (indexBuffer enc)) (indexBufferByteOffset off) 34963]) [])"
  by (simp add: buildBufferViews_def Let_def)

section \<open>The options\<close>




text \<open>
  C7 (amended). \<open>createGltf\<close> leaves the mesh as it received it when \<open>relativeToCenter\<close> is
  false or absent. When it is true, \<open>createGltf\<close> itself calls the mesh's
  \<open>setPositionsRelativeToCenter\<close> (line 60), and the mesh after the call is the one that
  method leaves; \<open>createGltf\<close> changes nothing else. As the claim is written, that the
  mesh is never changed by the core, it fails.
\<close>

theorem createGltf_mesh_effect:
  "fst (createGltf M opts) =
     (if defaultValue (relativeToCenter opts) False
      then setPositionsRelativeToCenter M (mesh opts) else mesh opts)"
  by (simp add: createGltf_def Let_def)

text \<open>
  The quad, with a mesh whose center is (10, 20, 30) and \<open>relativeToCenter = true\<close>: after
  the call the positions of the mesh are the recentred ones.
\<close>

theorem recentring_counterexample:
  "positions (fst (createGltf (Mesh_model (Fin 10, Fin 20, Fin 30))
      ((default_options quad)\<lparr>relativeToCenter := Some True\<rparr>))) =
     map Fin [-10, -20, -30, -9, -20, -30, -9, -19, -30, -10, -19, -30] \<and>
   positions quad = map Fin [0, 0, 0, 1, 0, 0, 1, 1, 0, 0, 1, 0] \<and>
   fst (createGltf (Mesh_model (Fin 10, Fin 20, Fin 30))
      ((default_options quad)\<lparr>relativeToCenter := Some True\<rparr>)) \<noteq> quad"
  by (simp add: createGltf_fst default_options_def defaultValue_def Mesh_model_def quad_def
      recenter_def enumerate_eq_zip upt_rec)

text \<open>
  C9. Two calls on the same mesh whose options differ only in \<open>quantization\<close> and
  \<open>textureCompressionOptions\<close> have the same outcome and leave the same mesh: the two
  options are read (lines 39 and 41) and never used.
\<close>

theorem quantization_and_compression_ignored:
  "createGltf M (opts\<lparr>quantization := q1, textureCompressionOptions := t1\<rparr>) =
   createGltf M (opts\<lparr>quantization := q2, textureCompressionOptions := t2\<rparr>)"
  by (simp add: createGltf_def)

section \<open>The contents of the asset: calls that throw before it is built\<close>

text \<open>
  C1 (defect of the code). The claim describes the index accessor emitted for each view.
  No call emits one. On a mesh with vertices the loop over the positions throws at line
  79, where \<open>position\<close> is read and only \<open>positions\<close> is declared. On a mesh without
  positions the first \<open>indexAccessors.push\<close> of line 166 throws, because \<open>indexAccessors\<close>
  is the object literal of line 131 and not an array. The accessor literal itself carries
  the fields the claim names (\<open>indexAccessor_fields\<close>).
\<close>

theorem index_accessors_never_emitted:
  "snd (createGltf M (default_options (quad\<lparr>views := two_views\<rparr>))) =
     throws (ReferenceError ''position'') \<and>
   snd (createGltf M (default_options (quad\<lparr>positions := [], views := two_views\<rparr>))) =
     throws (TypeError ''push is not a function'')"
proof (rule conjI)
  show "snd (createGltf M (default_options (quad\<lparr>views := two_views\<rparr>))) =
     throws (ReferenceError ''position'')"
    by (rule createGltf_default_positions) (simp add: quad_def)
  show "snd (createGltf M (default_options (quad\<lparr>positions := [], views := two_views\<rparr>))) =
     throws (TypeError ''push is not a function'')"
    by (rule createGltf_push) (simp_all add: quad_def two_views_def list_all_iff)
qed

text \<open>
  C2 (defect of the code). The claim describes the concatenated buffer and the recorded
  offsets. On the quad, with the batch ids left out or with colours and batch ids present,
  the call throws at line 79 before any buffer is concatenated, and the buffer views of
  lines 304 to 348 are never built. The straight-line code of lines 127 to 159 computes
  the running totals the claim describes (\<open>layout_running_totals\<close>), but only a mesh
  without positions reaches it.
\<close>

theorem buffer_layout_never_recorded:
  "snd (createGltf M ((default_options quad)\<lparr>useBatchIds := Some False\<rparr>)) =
     throws (ReferenceError ''position'') \<and>
   snd (createGltf M ((default_options (quad\<lparr>vertexColors := replicate 16 (Fin 255)\<rparr>))
      \<lparr>useBatchIds := Some True\<rparr>)) = throws (ReferenceError ''position'')"
  by (simp add: createGltf_positions createGltf_fst default_options_def defaultValue_def quad_def)

text \<open>
  C3 (defect of the code). The claim asks that a mesh with a non-zero vertex colour gets
  the colour buffer view, the colour accessor and \<open>COLOR_0\<close>. The quad with every colour
  component 255 has vertex colours, and the call throws at line 79. Without positions and
  views the call reaches the vertex accessors and throws at line 247, where
  \<open>positionsMinMax\<close> is read and only \<open>positionMinMax\<close> is declared; the colour accessor
  of line 276 and the buffer views come after that line. The attribute map and the list
  of buffer views, by themselves, hold the colour entry exactly when the mesh has vertex
  colours (\<open>viewAttributes_COLOR_0\<close>, \<open>buildBufferViews_eq\<close>).
\<close>

theorem vertex_colours_never_emitted:
  "hasVertexColors (vertexColors (quad\<lparr>vertexColors := replicate 16 (Fin 255)\<rparr>)) \<and>
   snd (createGltf M (default_options (quad\<lparr>vertexColors := replicate 16 (Fin 255)\<rparr>))) =
     throws (ReferenceError ''position'') \<and>
   snd (createGltf M (default_options
      (quad\<lparr>positions := [], views := [], vertexColors := replicate 16 (Fin 255)\<rparr>))) =
     throws (ReferenceError ''positionsMinMax'')"
proof (intro conjI)
  show "hasVertexColors (vertexColors (quad\<lparr>vertexColors := replicate 16 (Fin 255)\<rparr>))"
    by (simp add: hasVertexColors_def list_all_iff)
  show "snd (createGltf M (default_options (quad\<lparr>vertexColors := replicate 16 (Fin 255)\<rparr>))) =
     throws (ReferenceError ''position'')"
    by (rule createGltf_default_positions) (simp add: quad_def)
  show "snd (createGltf M (default_options
      (quad\<lparr>positions := [], views := [], vertexColors := replicate 16 (Fin 255)\<rparr>))) =
     throws (ReferenceError ''positionsMinMax'')"
    by (rule createGltf_no_views) (simp_all add: quad_def list_all_iff)
qed

text \<open>
  C5 (defect of the code). The matrix that \<open>createGltf\<close> selects for the root node
  depends on the \<open>upAxis\<close> option alone, as the claim says: for \<open>'Y'\<close>, and when the
  option is absent, it is the fixed rotation about the x-axis that turns z-up into y-up
  (a quarter turn, the sixteen entries in column-major order); for \<open>'Z'\<close> it is the
  identity; and the node literal of lines 368 to 374 takes it as its \<open>matrix\<close>. No call
  builds that node: with \<open>upAxis = 'Z'\<close> on the quad the call throws at line 79, and on
  a mesh without positions and views at line 247.
\<close>

theorem root_node_never_emitted:
  "rootMatrix (defaultValue None ''Y'') =
     nums (map Fin [1, 0, 0, 0, 0, 0, -1, 0, 0, 1, 0, 0, 0, 0, 0, 1]) \<and>
   rootMatrix (defaultValue (Some ''Y'') ''Y'') =
     nums (map Fin [1, 0, 0, 0, 0, 0, -1, 0, 0, 1, 0, 0, 0, 0, 0, 1]) \<and>
   rootMatrix (defaultValue (Some ''Z'') ''Y'') =
     nums (map Fin [1, 0, 0, 0, 0, 1, 0, 0, 0, 0, 1, 0, 0, 0, 0, 1]) \<and>
   rootMatrix ''Y'' =
     nums (map Fin [1, 0, 0, 0,
                    0, cos (- (pi / 2)), sin (- (pi / 2)), 0,
                    0, - sin (- (pi / 2)), cos (- (pi / 2)), 0,
                    0, 0, 0, 1]) \<and>
   property (assembleGltf accessors buf bufferViews vars matrix center) ''nodes'' =
     JArr [JObj [(''matrix'', matrix), (''mesh'', num 0), (''name'', JStr ''rootNode'')]] [] \<and>
   snd (createGltf M ((default_options quad)\<lparr>upAxis := Some ''Z''\<rparr>)) =
     throws (ReferenceError ''position'') \<and>
   snd (createGltf M ((default_options (quad\<lparr>positions := [], views := []\<rparr>))
      \<lparr>upAxis := Some ''Z''\<rparr>)) = throws (ReferenceError ''positionsMinMax'')"
proof -
  have "snd (createGltf M ((default_options quad)\<lparr>upAxis := Some ''Z''\<rparr>)) =
     throws (ReferenceError ''position'')"
    by (simp add: createGltf_positions createGltf_fst default_options_def defaultValue_def
        quad_def)
  moreover have "snd (createGltf M ((default_options (quad\<lparr>positions := [], views := []\<rparr>))
      \<lparr>upAxis := Some ''Z''\<rparr>)) = throws (ReferenceError ''positionsMinMax'')"
  proof -
    have "snd (createGltf M (default_options (quad\<lparr>positions := [], views := []\<rparr>))) =
        throws (ReferenceError ''positionsMinMax'')"
      by (rule createGltf_no_views) (simp_all add: quad_def list_all_iff)
    moreover have "default_options (quad\<lparr>positions := [], views := []\<rparr>) =
        (default_options (quad\<lparr>positions := [], views := []\<rparr>))\<lparr>upAxis := None\<rparr>"
      by (simp add: default_options_def)
    ultimately show ?thesis
      using createGltf_upAxis_irrelevant[where M = M
          and opts = "default_options (quad\<lparr>positions := [], views := []\<rparr>)"
          and a = "Some ''Z''" and b = None]
      by simp
  qed
  ultimately show ?thesis
    by (simp add: rootMatrix_def defaultValue_def assembleGltf_def assign_def Let_def
        split: option.splits prod.splits)
qed

text \<open>
  C8 (defect of the code). The claim describes the samplers, images and textures of a
  mesh with textured views. With two textured views the call throws at line 79; without
  positions it throws at the \<open>indexAccessors.push\<close> of the first view, before the texture
  code of lines 181 to 200 runs, so no image, texture or sampler is ever created. That
  code, by itself, creates the one sampler with the first texture and appends one image
  and one texture per textured view (\<open>viewMaterial_first_texture\<close>,
  \<open>viewMaterial_next_texture\<close>).
\<close>

theorem samplers_never_emitted:
  "snd (createGltf M (default_options (quad\<lparr>views := textured_views\<rparr>))) =
     throws (ReferenceError ''position'') \<and>
   snd (createGltf M (default_options (quad\<lparr>positions := [], views := textured_views\<rparr>))) =
     throws (TypeError ''push is not a function'')"
proof (rule conjI)
  show "snd (createGltf M (default_options (quad\<lparr>views := textured_views\<rparr>))) =
     throws (ReferenceError ''position'')"
    by (rule createGltf_default_positions) (simp add: quad_def)
  show "snd (createGltf M (default_options (quad\<lparr>positions := [], views := textured_views\<rparr>))) =
     throws (TypeError ''push is not a function'')"
    by (rule createGltf_push) (simp_all add: quad_def textured_views_def list_all_iff)
qed

text \<open>
  C10 (defect of the code). On an empty range \<open>getMinMax\<close> returns \<open>+Infinity\<close> for every
  minimum and \<open>-Infinity\<close> for every maximum, as the claim says, and the accessor literal
  takes them unchanged (\<open>indexAccessor_fields\<close>). The accessor is never emitted: with a
  view of \<open>indexCount = 0\<close> the call throws at line 79, and without positions at the
  \<open>indexAccessors.push\<close> of line 166.
\<close>

theorem empty_range_bounds_never_emitted:
  "getMinMax (indices quad) 1 (Some 0) (Some 0) = Some \<lparr>mins = [PosInf], maxs = [NegInf]\<rparr> \<and>
   getMinMax [] 3 None None =
     Some \<lparr>mins = [PosInf, PosInf, PosInf], maxs = [NegInf, NegInf, NegInf]\<rparr> \<and>
   snd (createGltf M (default_options (quad\<lparr>views := empty_view\<rparr>))) =
     throws (ReferenceError ''position'') \<and>
   snd (createGltf M (default_options (quad\<lparr>positions := [], views := empty_view\<rparr>))) =
     throws (TypeError ''push is not a function'')"
proof (intro conjI)
  show "getMinMax (indices quad) 1 (Some 0) (Some 0) = Some \<lparr>mins = [PosInf], maxs = [NegInf]\<rparr>"
    by (simp add: getMinMax_empty_range defaultValue_def)
  show "getMinMax [] 3 None None =
     Some \<lparr>mins = [PosInf, PosInf, PosInf], maxs = [NegInf, NegInf, NegInf]\<rparr>"
    by (simp add: getMinMax_empty_range defaultValue_def numeral_3_eq_3)
  show "snd (createGltf M (default_options (quad\<lparr>views := empty_view\<rparr>))) =
     throws (ReferenceError ''position'')"
    by (rule createGltf_default_positions) (simp add: quad_def)
  show "snd (createGltf M (default_options (quad\<lparr>positions := [], views := empty_view\<rparr>))) =
     throws (TypeError ''push is not a function'')"
    by (rule createGltf_push) (simp_all add: quad_def empty_view_def list_all_iff)
qed

end
